theory Spec2Isabelle
  imports Main
begin

section \<open>JavaScript values, as far as the scheduling code looks at them\<close>

text \<open>
  Configuration values, arguments and results are untyped at run time (\<^verbatim>\<open>any\<close>).
  Numbers are modelled as whole numbers plus \<^verbatim>\<open>NaN\<close>; functions and class
  instances are opaque (\<open>JFun\<close>).
\<close>

datatype jsval =
    JUndefined
  | JNull
  | JBool bool
  | JNum int
  | JNaN
  | JStr string
  | JArr "jsval list"
  | JObj "(string \<times> jsval) list"
  | JFun nat

text \<open>The language's truthiness test, as used by \<^verbatim>\<open>||\<close>, \<^verbatim>\<open>&&\<close>, \<^verbatim>\<open>!\<close> and \<^verbatim>\<open>if\<close>.\<close>

fun truthy :: "jsval \<Rightarrow> bool" where
  "truthy JUndefined = False"
| "truthy JNull = False"
| "truthy (JBool b) = b"
| "truthy (JNum n) = (n \<noteq> 0)"
| "truthy JNaN = False"
| "truthy (JStr s) = (s \<noteq> [])"
| "truthy (JArr xs) = True"
| "truthy (JObj kvs) = True"
| "truthy (JFun f) = True"

text \<open>\<^verbatim>\<open>a || b\<close>: the left operand when it is truthy, the right one otherwise.\<close>

definition js_or :: "jsval \<Rightarrow> jsval \<Rightarrow> jsval" where
  "js_or a b = (if truthy a then a else b)"

text \<open>
  \<^verbatim>\<open>helper.isEmpty\<close> of the \<^verbatim>\<open>think_lib\<close> package, which the scheduling code imports
  and which is not among the sources here; it is written down from the package's own
  description: \<^verbatim>\<open>undefined\<close>, \<^verbatim>\<open>null\<close>, the empty string, a string of white space only
  (ASCII white space in this model), \<^verbatim>\<open>NaN\<close>, \<^verbatim>\<open>[]\<close> and \<^verbatim>\<open>{}\<close> are empty; everything
  else is not, the number zero and \<^verbatim>\<open>false\<close> included.
\<close>

definition is_space :: "char \<Rightarrow> bool" where
  "is_space c = (c \<in> set [CHR '' '', CHR 0x09, CHR 0x0A, CHR 0x0B, CHR 0x0C, CHR 0x0D])"

fun isEmpty :: "jsval \<Rightarrow> bool" where
  "isEmpty JUndefined = True"
| "isEmpty JNull = True"
| "isEmpty (JStr s) = (dropWhile is_space s = [])"
| "isEmpty (JNum n) = False"
| "isEmpty JNaN = True"
| "isEmpty (JArr xs) = (xs = [])"
| "isEmpty (JObj kvs) = (kvs = [])"
| "isEmpty (JBool b) = False"
| "isEmpty (JFun f) = False"

text \<open>An optional parameter of declared type \<^verbatim>\<open>string\<close> or \<^verbatim>\<open>number\<close>; \<open>None\<close> is \<^verbatim>\<open>undefined\<close>.\<close>

definition of_opt_string :: "string option \<Rightarrow> jsval" where
  "of_opt_string s = (case s of None \<Rightarrow> JUndefined | Some t \<Rightarrow> JStr t)"

definition of_opt_number :: "int option \<Rightarrow> jsval" where
  "of_opt_number n = (case n of None \<Rightarrow> JUndefined | Some k \<Rightarrow> JNum k)"

text \<open>A value inside a template literal: \<^verbatim>\<open>`${x}`\<close> of a string or of \<^verbatim>\<open>undefined\<close>.\<close>

definition template :: "string option \<Rightarrow> string" where
  "template s = (case s of None \<Rightarrow> ''undefined'' | Some t \<Rightarrow> t)"

section \<open>Errors, promises and observable effects\<close>

datatype exn = Error string | Thrown jsval

datatype 'a promise = Resolved 'a | Rejected exn

text \<open>
  What a call does besides returning: log lines, calls to the lock client, the call of the
  guarded method (\<open>Apply\<close>: \<^verbatim>\<open>value.apply(this, props)\<close>), the call of a scheduled
  method (\<open>CallMethod\<close>: \<^verbatim>\<open>instance[method]()\<close>) and the start of a cron timer
  (\<open>StartCronJob cron name instance method\<close>), in the order in which they happen.
\<close>

datatype 'i event =
    LogInfo string
  | LogWarn string
  | LogError exn
  | LogCustom string string string
  | CallLock string "int option"
  | CallWaitLock string "int option" "int option" "int option"
  | CallUnLock string
  | Apply 'i "jsval list"
  | CallMethod 'i string "jsval list"
  | StartCronJob string string 'i string

section \<open>The lock client and the lock-guard wrapper\<close>

text \<open>
  \<^verbatim>\<open>../util/Locker\<close>, which is not among the sources here: the client's three operations
  as the wrapper uses them, each asynchronous and answering with a promise (the wrapper
  attaches \<^verbatim>\<open>.catch\<close> to each). \<open>unLock\<close> may be missing on the object
  (\<^verbatim>\<open>if (lockerCls.unLock)\<close>). The durations are whole milliseconds.
\<close>

record locker =
  lock :: "string \<Rightarrow> int option \<Rightarrow> bool promise"
  waitLock :: "string \<Rightarrow> int option \<Rightarrow> int option \<Rightarrow> int option \<Rightarrow> bool promise"
  unLock :: "(string \<Rightarrow> unit promise) option"

text \<open>
  What the wrapper reaches through module imports and through its receiver:
  \<^verbatim>\<open>Locker.getInstance(options)\<close> (\<open>None\<close> when it returns nothing) and
  \<^verbatim>\<open>this.app.config(name, type)\<close>.
\<close>

record 'i world =
  Locker_getInstance :: "jsval \<Rightarrow> locker option"
  app_config :: "'i \<Rightarrow> string \<Rightarrow> string \<Rightarrow> jsval"

text \<open>\<^verbatim>\<open>p.catch(er => { logger.error(er); return false; })\<close>, awaited.\<close>

definition catch_false :: "bool promise \<Rightarrow> bool \<times> 'i event list" where
  "catch_false p = (case p of Resolved b \<Rightarrow> (b, []) | Rejected er \<Rightarrow> (False, [LogError er]))"

text \<open>
  Lines 82 to 96: the choice of the acquisition primitive and its call. \<open>attempt\<close> is the
  promise of the primitive that is chosen, \<open>acquire\<close> the flag the wrapper gets from it.
\<close>

definition attempt ::
  "locker \<Rightarrow> string \<Rightarrow> int option \<Rightarrow> int option \<Rightarrow> int option \<Rightarrow> bool promise" where
  "attempt lockerCls name lockTimeOut waitLockInterval waitLockTimeOut =
     (if truthy (of_opt_number waitLockInterval) \<or> truthy (of_opt_number waitLockTimeOut)
      then waitLock lockerCls name lockTimeOut waitLockInterval waitLockTimeOut
      else lock lockerCls name lockTimeOut)"

definition acquire ::
  "locker \<Rightarrow> string \<Rightarrow> int option \<Rightarrow> int option \<Rightarrow> int option \<Rightarrow> bool \<times> 'i event list" where
  "acquire lockerCls name lockTimeOut waitLockInterval waitLockTimeOut =
     (if truthy (of_opt_number waitLockInterval) \<or> truthy (of_opt_number waitLockTimeOut) then
        (let (flag, es) = catch_false (waitLock lockerCls name lockTimeOut waitLockInterval waitLockTimeOut)
         in (flag, CallWaitLock name lockTimeOut waitLockInterval waitLockTimeOut # es))
      else
        (let (flag, es) = catch_false (lock lockerCls name lockTimeOut)
         in (flag, CallLock name lockTimeOut # es)))"

text \<open>The \<^verbatim>\<open>finally\<close> block, lines 105 to 111.\<close>

definition release :: "locker \<Rightarrow> string \<Rightarrow> 'i event list" where
  "release lockerCls name =
     (case unLock lockerCls of
        None \<Rightarrow> []
      | Some u \<Rightarrow>
          CallUnLock name # (case u name of Resolved _ \<Rightarrow> [] | Rejected er \<Rightarrow> [LogError er]))"

definition missing_config_msg :: string where
  "missing_config_msg =
     ''Missing redis server configuration. Please write a configuration item with the key name '' @
     [CHR 0x27] @ ''SchedulerLock'' @ [CHR 0x27] @ '' or '' @ [CHR 0x27] @ ''redis'' @ [CHR 0x27] @
     '' in the db.ts file.''"

text \<open>Line 73: the configuration the lock client is built from.\<close>

definition resolve_options :: "'i world \<Rightarrow> 'i \<Rightarrow> jsval" where
  "resolve_options w this =
     js_or (app_config w this ''SchedulerLock'' ''db'') (app_config w this ''redis'' ''db'')"

text \<open>
  The replacement method, lines 71 to 116. \<open>name\<close>, \<open>methodName\<close>, the three durations and
  \<open>value\<close> (the original method) are the variables the closure captures; \<open>this\<close> and
  \<open>props\<close> are the receiver and the arguments of the call. The result is the promise the
  caller gets and the effects of the call.
\<close>

definition guarded ::
  "'i world \<Rightarrow> string \<Rightarrow> string \<Rightarrow> int option \<Rightarrow> int option \<Rightarrow> int option \<Rightarrow>
   ('i \<Rightarrow> jsval list \<Rightarrow> jsval promise) \<Rightarrow> 'i \<Rightarrow> jsval list \<Rightarrow> jsval promise \<times> 'i event list" where
  "guarded w name methodName lockTimeOut waitLockInterval waitLockTimeOut value this props =
     (let redisOptions = resolve_options w this in
      if isEmpty redisOptions then (Rejected (Error missing_config_msg), [])
      else
        (case Locker_getInstance w redisOptions of
           None \<Rightarrow>
             (Rejected (Error (''Redis connection failed. The method '' @ methodName @ '' is not executed.'')), [])
         | Some lockerCls \<Rightarrow>
             (let (lockerFlag, es) = acquire lockerCls name lockTimeOut waitLockInterval waitLockTimeOut in
              if lockerFlag then
                (value this props,
                 es @ [LogInfo (''The locker '' @ name @ '' executed.''), Apply this props] @
                 release lockerCls name)
              else
                (Resolved JUndefined,
                 es @ [LogWarn (''Redis lock '' @ name @ '' acquisition failed. The method '' @
                                methodName @ '' is not executed.'')]))))"

section \<open>The decorators\<close>

text \<open>
  A decorated target: the prototype or class the decorator is applied to, of which the code
  reads only \<^verbatim>\<open>target.constructor\<close> and its \<^verbatim>\<open>name\<close> (\<open>None\<close>: there is no constructor).
\<close>

record target =
  target_ref :: nat
  constructor_name :: "string option"

text \<open>\<^verbatim>\<open>IOCContainer\<close> of \<^verbatim>\<open>think_container\<close>: the two queries the scheduling code makes.\<close>

record ioc =
  getType :: "target \<Rightarrow> string"
  getIdentifier :: "target \<Rightarrow> string option"

record schedule_meta =
  m_cron :: string
  m_method :: string

definition SCHEDULE_KEY :: string where
  "SCHEDULE_KEY = ''SCHEDULE_KEY''"

type_synonym registry = "string \<times> target \<times> string \<Rightarrow> schedule_meta list"

text \<open>
  Modelled from the spec: \<^verbatim>\<open>IOCContainer.attachPropertyData\<close> belongs to the metadata
  registry, which is not among the sources. The registry maps a method of a type, under a
  reserved key, to an ordered list of records, and registrations accumulate.
\<close>

definition attachPropertyData ::
  "string \<Rightarrow> schedule_meta \<Rightarrow> target \<Rightarrow> string \<Rightarrow> registry \<Rightarrow> registry" where
  "attachPropertyData key data target propertyKey reg =
     reg((key, target, propertyKey) := reg (key, target, propertyKey) @ [data])"

text \<open>
  \<^verbatim>\<open>Scheduled(cron)\<close>, lines 31 to 43: the factory either throws or returns the decorator,
  which records its metadata when it is applied to a method.
\<close>

definition Scheduled :: "string \<Rightarrow> exn + (target \<Rightarrow> string \<Rightarrow> registry \<Rightarrow> registry)" where
  "Scheduled cron =
     (if isEmpty (JStr cron) then Inl (Error ''ScheduleJob rule is not defined'')
      else Inr (\<lambda>target propertyKey.
             attachPropertyData SCHEDULE_KEY \<lparr>m_cron = cron, m_method = propertyKey\<rparr> target propertyKey))"

record 'v descriptor =
  desc_value :: 'v
  configurable :: bool
  enumerable :: bool
  writable :: bool

text \<open>Lines 63 to 66: the lock name the wrapper closes over.\<close>

definition lock_name :: "ioc \<Rightarrow> string option \<Rightarrow> target \<Rightarrow> string \<Rightarrow> string" where
  "lock_name c name target methodName =
     (case (if isEmpty (of_opt_string name) then None else name) of
        Some given \<Rightarrow> given
      | None \<Rightarrow>
          (let registered = getIdentifier c target;
               identifier =
                 (if truthy (of_opt_string registered) then template registered
                  else (case constructor_name target of Some n \<Rightarrow> n | None \<Rightarrow> []))
           in identifier @ ''_'' @ methodName))"

text \<open>
  \<^verbatim>\<open>SchedulerLock(name, lockTimeOut, waitLockInterval, waitLockTimeOut)\<close> applied to
  \<open>(target, methodName, descriptor)\<close>, lines 56 to 120. The factory's parameter
  \<^verbatim>\<open>name\<close> is one variable, shared by all applications of the decorator function the
  factory returns and by the wrappers they make, and line 65 assigns to it. So \<open>name\<close>
  is the content of that variable when the decorator is applied (at the first application,
  the argument of the factory), and the result is an error, raised before the variable is
  touched, or the content of the variable afterwards together with the new descriptor. A
  further application of the same decorator function starts from that content. The wrapper
  reads the variable when it is called: that is the content its own application leaves,
  since an application leaves a name that is not empty and none changes such a name.
\<close>

definition SchedulerLock ::
  "'i world \<Rightarrow> ioc \<Rightarrow> string option \<Rightarrow> int option \<Rightarrow> int option \<Rightarrow> int option \<Rightarrow>
   target \<Rightarrow> string \<Rightarrow> ('i \<Rightarrow> jsval list \<Rightarrow> jsval promise) descriptor \<Rightarrow>
   exn + string \<times> ('i \<Rightarrow> jsval list \<Rightarrow> jsval promise \<times> 'i event list) descriptor" where
  "SchedulerLock w c name lockTimeOut waitLockInterval waitLockTimeOut target methodName descriptor =
     (let componentType = getType c target in
      if componentType = ''CONTROLLER'' then
        Inl (Error ''SchedulerLock decorator cannot be used in the controller class.'')
      else
        (let name = lock_name c name target methodName in
         Inr (name,
              \<lparr> desc_value =
                  guarded w name methodName lockTimeOut waitLockInterval waitLockTimeOut
                    (desc_value descriptor),
                configurable = configurable descriptor,
                enumerable = enumerable descriptor,
                writable = True \<rparr>)))"

section \<open>The scheduler registrar\<close>

text \<open>\<^verbatim>\<open>instance[method]\<close>: nothing, a value that is not a function, or a function.\<close>

datatype 'i member =
    NoMember
  | ValueMember jsval
  | FunctionMember "'i \<Rightarrow> jsval list \<Rightarrow> jsval promise"

fun isFunction :: "'i member \<Rightarrow> bool" where
  "isFunction (FunctionMember f) = True"
| "isFunction _ = False"

text \<open>
  What the start listener and the timer callback read when they run: the container's
  identifier and instance registries, the members of the instances, and the debug flag of
  the environment.
\<close>

record 'i runtime =
  IOCContainer :: ioc
  getInsByClass :: "target \<Rightarrow> 'i option"
  get_member :: "'i \<Rightarrow> string \<Rightarrow> 'i member"
  APP_DEBUG :: bool

text \<open>
  The function given to \<^verbatim>\<open>new CronJob\<close>, lines 154 to 163, for the captured \<open>name\<close>,
  \<open>instance\<close> and \<open>method\<close>: the promise the timer driver gets, and the effects.
\<close>

definition job_callback :: "'i runtime \<Rightarrow> string \<Rightarrow> 'i \<Rightarrow> string \<Rightarrow> jsval promise \<times> 'i event list" where
  "job_callback rt name instance method =
     (let started = LogInfo (''The schedule job '' @ name @ '' started.'') in
      case get_member rt instance method of
        FunctionMember f \<Rightarrow>
          (case f instance [] of
             Resolved res \<Rightarrow> (Resolved res, [started, CallMethod instance method []])
           | Rejected e \<Rightarrow> (Resolved JUndefined, [started, CallMethod instance method [], LogError e]))
      | _ \<Rightarrow>
          (Resolved JUndefined,
           [started, LogError (Error ''TypeError: instance[method] is not a function'')]))"

text \<open>Lines 147 and 149: the name of a job in the log.\<close>

definition job_name :: "ioc \<Rightarrow> target \<Rightarrow> string \<Rightarrow> string" where
  "job_name c target method = (let identifier = getIdentifier c target in template identifier @ ''_'' @ method)"

text \<open>The listener of \<^verbatim>\<open>appStart\<close>, lines 146 to 165, for the captured target, method and cron.\<close>

definition on_appStart :: "target \<Rightarrow> string \<Rightarrow> string \<Rightarrow> 'i runtime \<Rightarrow> 'i event list" where
  "on_appStart target method cron rt =
     (let identifier = getIdentifier (IOCContainer rt) target;
          instance = getInsByClass rt target;
          name = job_name (IOCContainer rt) target method
      in case instance of
           None \<Rightarrow> []
         | Some inst \<Rightarrow>
             if isFunction (get_member rt inst method) \<and> truthy (JStr cron) then
               (if APP_DEBUG rt then
                  [LogCustom ''think'' []
                     (''Register inject '' @ template identifier @ '' schedule key: '' @ method @
                      '' => value: '' @ cron)]
                else []) @
               [StartCronJob cron name inst method]
             else [])"

text \<open>The application object: its pending one-shot listeners, by event name.\<close>

record 'i app =
  once_listeners :: "(string \<times> ('i runtime \<Rightarrow> 'i event list)) list"

definition once :: "string \<Rightarrow> ('i runtime \<Rightarrow> 'i event list) \<Rightarrow> 'i app \<Rightarrow> 'i app" where
  "once ev listener a = a\<lparr>once_listeners := once_listeners a @ [(ev, listener)]\<rparr>"

text \<open>
  Emitting an event runs its listeners in the order of their registration and drops them
  (they are one-shot); the result is the application afterwards and the effects.
\<close>

definition emit :: "string \<Rightarrow> 'i runtime \<Rightarrow> 'i app \<Rightarrow> 'i app \<times> 'i event list" where
  "emit ev rt a =
     (a\<lparr>once_listeners := filter (\<lambda>(n, l). n \<noteq> ev) (once_listeners a)\<rparr>,
      concat (map (\<lambda>(n, l). l rt) (filter (\<lambda>(n, l). n = ev) (once_listeners a))))"

text \<open>
  \<open>execInjectSchedule\<close>, lines 143 to 166. The second argument is what
  \<^verbatim>\<open>container.getApp()\<close> returns; the result is that application with the listener added.
\<close>

definition execInjectSchedule ::
  "target \<Rightarrow> 'i app option \<Rightarrow> string \<Rightarrow> string \<Rightarrow> 'i app option" where
  "execInjectSchedule target app method cron =
     (case app of
        None \<Rightarrow> None
      | Some a \<Rightarrow> Some (once ''appStart'' (on_appStart target method cron) a))"

text \<open>
  \<open>injectSchedule\<close>, lines 176 to 186. \<open>recursiveGetMetadata\<close> (of \<^verbatim>\<open>../util/Lib\<close>) is a
  parameter: it answers with the method names in order, each with its list of records. Of
  the container only \<^verbatim>\<open>getApp()\<close> is used here, so its result stands for it; the source's
  second parameter, \<^verbatim>\<open>instance\<close>, is not used by the function at all.
\<close>

fun inject_vals :: "target \<Rightarrow> string \<Rightarrow> schedule_meta list \<Rightarrow> 'i app option \<Rightarrow> 'i app option" where
  "inject_vals target meta [] app = app"
| "inject_vals target meta (val # vals) app =
     inject_vals target meta vals
       (if truthy (JStr (m_cron val)) \<and> truthy (JStr meta)
        then execInjectSchedule target app meta (m_cron val) else app)"

fun inject_metas ::
  "target \<Rightarrow> (string \<times> schedule_meta list) list \<Rightarrow> 'i app option \<Rightarrow> 'i app option" where
  "inject_metas target [] app = app"
| "inject_metas target ((meta, vals) # rest) app =
     inject_metas target rest (inject_vals target meta vals app)"

definition injectSchedule ::
  "(string \<Rightarrow> target \<Rightarrow> (string \<times> schedule_meta list) list) \<Rightarrow> target \<Rightarrow> 'i app option \<Rightarrow>
   'i app option" where
  "injectSchedule recursiveGetMetadata target app =
     (let metaDatas = recursiveGetMetadata SCHEDULE_KEY target in inject_metas target metaDatas app)"

section \<open>Reading the effects\<close>

text \<open>The calls of an acquisition primitive among the effects, and the timers started.\<close>

fun is_acquisition :: "'i event \<Rightarrow> bool" where
  "is_acquisition (CallLock name t) = True"
| "is_acquisition (CallWaitLock name t i g) = True"
| "is_acquisition _ = False"

fun is_timer :: "'i event \<Rightarrow> bool" where
  "is_timer (StartCronJob cron name instance method) = True"
| "is_timer _ = False"

text \<open>
  The timers that exist once the application has signalled \<^verbatim>\<open>appStart\<close>; without an
  application object there is nothing to signal and no timer.
\<close>

definition started_timers :: "'i runtime \<Rightarrow> 'i app option \<Rightarrow> 'i event list" where
  "started_timers rt app =
     (case app of None \<Rightarrow> [] | Some a \<Rightarrow> filter is_timer (snd (emit ''appStart'' rt a)))"

text \<open>
  The timers the registry entries of a type are due: one for each record with a cron
  expression, under a method name that is not the empty string, when the type has an
  instance on which that method is a function.
\<close>

definition due_timer :: "'i runtime \<Rightarrow> target \<Rightarrow> string \<Rightarrow> schedule_meta \<Rightarrow> 'i event list" where
  "due_timer rt target meta val =
     (case getInsByClass rt target of
        None \<Rightarrow> []
      | Some inst \<Rightarrow>
          if m_cron val \<noteq> [] \<and> meta \<noteq> [] \<and> isFunction (get_member rt inst meta)
          then [StartCronJob (m_cron val) (job_name (IOCContainer rt) target meta) inst meta]
          else [])"

definition due_timers ::
  "'i runtime \<Rightarrow> target \<Rightarrow> (string \<times> schedule_meta list) list \<Rightarrow> 'i event list" where
  "due_timers rt target metaDatas =
     concat (map (\<lambda>(meta, vals). concat (map (due_timer rt target meta) vals)) metaDatas)"

text \<open>
  A timer driver at its strictest: it fires the callbacks of a sequence of firings (of any
  timers, each with the state it finds) one after the other and gives up, with \<open>None\<close>,
  as soon as a callback hands it an error.
\<close>

fun fire_all :: "('i runtime \<times> string \<times> 'i \<times> string) list \<Rightarrow> 'i event list option" where
  "fire_all [] = Some []"
| "fire_all ((rt, name, instance, method) # rest) =
     (case job_callback rt name instance method of
        (Rejected e, es) \<Rightarrow> None
      | (Resolved res, es) \<Rightarrow> map_option ((@) es) (fire_all rest))"

section \<open>A small installation, for concrete runs\<close>

definition redis_options :: jsval where
  "redis_options = JObj [(''host'', JStr ''127.0.0.1''), (''port'', JNum 6379)]"

definition config_redis :: "nat \<Rightarrow> string \<Rightarrow> string \<Rightarrow> jsval" where
  "config_redis this key type =
     (if key = ''redis'' \<and> type = ''db'' then redis_options else JUndefined)"

definition config_blank_first :: "nat \<Rightarrow> string \<Rightarrow> string \<Rightarrow> jsval" where
  "config_blank_first this key type =
     (if key = ''SchedulerLock'' \<and> type = ''db'' then JObj []
      else if key = ''redis'' \<and> type = ''db'' then redis_options else JUndefined)"

definition config_none :: "nat \<Rightarrow> string \<Rightarrow> string \<Rightarrow> jsval" where
  "config_none this key type = JUndefined"

definition free_locker :: locker where
  "free_locker = \<lparr> lock = (\<lambda>name t. Resolved True),
                    waitLock = (\<lambda>name t i g. Resolved True),
                    unLock = Some (\<lambda>name. Resolved ()) \<rparr>"

definition leaky_locker :: locker where
  "leaky_locker = \<lparr> lock = (\<lambda>name t. Resolved True),
                     waitLock = (\<lambda>name t i g. Resolved True),
                     unLock = Some (\<lambda>name. Rejected (Error ''release failed'')) \<rparr>"

definition busy_locker :: locker where
  "busy_locker = \<lparr> lock = (\<lambda>name t. Resolved False),
                    waitLock = (\<lambda>name t i g. Rejected (Error ''gave up waiting'')),
                    unLock = None \<rparr>"

definition world_with :: "(nat \<Rightarrow> string \<Rightarrow> string \<Rightarrow> jsval) \<Rightarrow> locker option \<Rightarrow> nat world" where
  "world_with cfg l = \<lparr> Locker_getInstance = (\<lambda>options. l), app_config = cfg \<rparr>"

definition failing_method :: "nat \<Rightarrow> jsval list \<Rightarrow> jsval promise" where
  "failing_method this props = Rejected (Error ''business failure'')"

definition echo_method :: "nat \<Rightarrow> jsval list \<Rightarrow> jsval promise" where
  "echo_method this props = Resolved (JArr props)"

definition silent_method :: "nat \<Rightarrow> jsval list \<Rightarrow> jsval promise" where
  "silent_method this props = Resolved JUndefined"

definition registry0 :: registry where
  "registry0 key = []"

definition service_proto :: target where
  "service_proto = \<lparr> target_ref = 0, constructor_name = Some ''TaskService'' \<rparr>"

definition controller_proto :: target where
  "controller_proto = \<lparr> target_ref = 1, constructor_name = Some ''IndexController'' \<rparr>"

definition plain_proto :: target where
  "plain_proto = \<lparr> target_ref = 2, constructor_name = Some ''ReportJob'' \<rparr>"

definition the_ioc :: ioc where
  "the_ioc = \<lparr> getType = (\<lambda>t. if target_ref t = 1 then ''CONTROLLER'' else ''SERVICE''),
               getIdentifier = (\<lambda>t. if target_ref t = 0 then Some ''TaskService''
                                     else if target_ref t = 1 then Some ''IndexController''
                                     else None) \<rparr>"

definition the_descriptor :: "(nat \<Rightarrow> jsval list \<Rightarrow> jsval promise) descriptor" where
  "the_descriptor = \<lparr> desc_value = echo_method, configurable = True, enumerable = False,
                      writable = False \<rparr>"

definition the_members :: "nat \<Rightarrow> string \<Rightarrow> nat member" where
  "the_members inst m =
     (if m = ''tick'' then FunctionMember echo_method
      else if m = ''crash'' then FunctionMember failing_method
      else if m = ''label'' then ValueMember (JStr ''tasks'')
      else NoMember)"

definition the_runtime :: "nat runtime" where
  "the_runtime = \<lparr> IOCContainer = the_ioc,
                   getInsByClass = (\<lambda>t. if target_ref t = 0 then Some 7 else None),
                   get_member = the_members,
                   APP_DEBUG = False \<rparr>"

definition the_metadata :: "string \<Rightarrow> target \<Rightarrow> (string \<times> schedule_meta list) list" where
  "the_metadata key t =
     (if key = SCHEDULE_KEY then
        [(''label'', [\<lparr>m_cron = ''0 * * * * *'', m_method = ''label''\<rparr>]),
         (''gone'', [\<lparr>m_cron = ''0 0 * * * *'', m_method = ''gone''\<rparr>]),
         (''tick'', [\<lparr>m_cron = ''*/5 * * * * *'', m_method = ''tick''\<rparr>])]
      else [])"

definition empty_app :: "nat app" where
  "empty_app = \<lparr> once_listeners = [] \<rparr>"

section \<open>Properties of the lock-guard wrapper\<close>

lemma truthy_of_opt_number: "truthy (of_opt_number n) \<longleftrightarrow> n \<noteq> None \<and> n \<noteq> Some 0"
  by (cases n) (simp_all add: of_opt_number_def)

lemma acquire_attempt:
  "acquire lockerCls name lt wi wt =
     (attempt lockerCls name lt wi wt = Resolved True,
      (if truthy (of_opt_number wi) \<or> truthy (of_opt_number wt)
       then CallWaitLock name lt wi wt else CallLock name lt) #
      (case attempt lockerCls name lt wi wt of Resolved b \<Rightarrow> [] | Rejected er \<Rightarrow> [LogError er]))"
  by (auto simp: acquire_def attempt_def catch_false_def split: promise.splits)

lemma guarded_with_client:
  assumes "\<not> isEmpty (resolve_options w this)"
    and "Locker_getInstance w (resolve_options w this) = Some lockerCls"
  shows "guarded w name methodName lt wi wt v this props =
     (if attempt lockerCls name lt wi wt = Resolved True then
        (v this props,
         snd (acquire lockerCls name lt wi wt) @
         [LogInfo (''The locker '' @ name @ '' executed.''), Apply this props] @
         release lockerCls name)
      else
        (Resolved JUndefined,
         snd (acquire lockerCls name lt wi wt) @
         [LogWarn (''Redis lock '' @ name @ '' acquisition failed. The method '' @ methodName @
                   '' is not executed.'')]))"
  using assms by (simp add: guarded_def acquire_attempt Let_def)

lemma guarded_without_client:
  assumes "\<not> isEmpty (resolve_options w this)"
    and "Locker_getInstance w (resolve_options w this) = None"
  shows "guarded w name methodName lt wi wt v this props =
     (Rejected (Error (''Redis connection failed. The method '' @ methodName @
                       '' is not executed.'')), [])"
  using assms by (simp add: guarded_def Let_def)

lemma guarded_without_config:
  assumes "isEmpty (resolve_options w this)"
  shows "guarded w name methodName lt wi wt v this props = (Rejected (Error missing_config_msg), [])"
  using assms by (simp add: guarded_def Let_def)

lemma resolve_config_redis: "resolve_options (world_with config_redis l) this = redis_options"
  by (simp add: resolve_options_def world_with_def config_redis_def js_or_def)

lemma redis_options_not_empty: "\<not> isEmpty redis_options"
  by (simp add: redis_options_def)

lemma client_of_world_with: "Locker_getInstance (world_with cfg l) options = l"
  by (simp add: world_with_def)

text \<open>
  C1, as the code has it. When a lock client is obtained and the acquisition primitive the
  wrapper calls does not resolve to true (it resolves to false, or it rejects, as it does
  when the backend cannot be reached during the attempt), the wrapper logs the rejection if
  there was one, logs the warning that names the lock and the method, never calls the
  original method, and its promise resolves: no error reaches the caller. When no lock
  client is obtained at all (\<^verbatim>\<open>Locker.getInstance\<close> returns nothing), the call is rejected
  with the error \<^verbatim>\<open>Redis connection failed\<close>, nothing is logged, and the original method
  is not called either.
\<close>

theorem guarded_acquisition_failure:
  assumes "\<not> isEmpty (resolve_options w this)"
  shows "(Locker_getInstance w (resolve_options w this) = Some lockerCls \<and>
          attempt lockerCls name lt wi wt \<noteq> Resolved True \<longrightarrow>
            (\<exists>res. fst (guarded w name methodName lt wi wt v this props) = Resolved res) \<and>
            snd (guarded w name methodName lt wi wt v this props) =
              snd (acquire lockerCls name lt wi wt) @
              [LogWarn (''Redis lock '' @ name @ '' acquisition failed. The method '' @
                        methodName @ '' is not executed.'')] \<and>
            (\<forall>r p. Apply r p \<notin> set (snd (guarded w name methodName lt wi wt v this props)))) \<and>
         (Locker_getInstance w (resolve_options w this) = None \<longrightarrow>
            guarded w name methodName lt wi wt v this props =
              (Rejected (Error (''Redis connection failed. The method '' @ methodName @
                                '' is not executed.'')), []))"
proof (intro conjI impI)
  assume a: "Locker_getInstance w (resolve_options w this) = Some lockerCls \<and>
             attempt lockerCls name lt wi wt \<noteq> Resolved True"
  then have g: "guarded w name methodName lt wi wt v this props =
        (Resolved JUndefined,
         snd (acquire lockerCls name lt wi wt) @
         [LogWarn (''Redis lock '' @ name @ '' acquisition failed. The method '' @ methodName @
                   '' is not executed.'')])"
    using guarded_with_client [OF assms, of lockerCls] by simp
  show "\<exists>res. fst (guarded w name methodName lt wi wt v this props) = Resolved res"
    by (simp add: g)
  show "snd (guarded w name methodName lt wi wt v this props) =
          snd (acquire lockerCls name lt wi wt) @
          [LogWarn (''Redis lock '' @ name @ '' acquisition failed. The method '' @
                    methodName @ '' is not executed.'')]"
    by (simp add: g)
  show "\<forall>r p. Apply r p \<notin> set (snd (guarded w name methodName lt wi wt v this props))"
    by (auto simp: g acquire_attempt split: promise.splits)
next
  assume "Locker_getInstance w (resolve_options w this) = None"
  then show "guarded w name methodName lt wi wt v this props =
              (Rejected (Error (''Redis connection failed. The method '' @ methodName @
                                '' is not executed.'')), [])"
    using guarded_without_client [OF assms] by simp
qed

text \<open>
  The busy lock: \<open>waitLock\<close> rejects, the rejection and the warning are logged, the promise
  resolves and the method is not called.
\<close>

theorem guarded_acquisition_failure_witness:
  "snd (guarded (world_with config_redis (Some busy_locker)) ''TaskService_run'' ''run''
          (Some 1000) (Some 100) (Some 500) echo_method 7 [JNum 1]) =
     [CallWaitLock ''TaskService_run'' (Some 1000) (Some 100) (Some 500),
      LogError (Error ''gave up waiting''),
      LogWarn ''Redis lock TaskService_run acquisition failed. The method run is not executed.''] \<and>
   (\<exists>res. fst (guarded (world_with config_redis (Some busy_locker)) ''TaskService_run'' ''run''
                 (Some 1000) (Some 100) (Some 500) echo_method 7 [JNum 1]) = Resolved res) \<and>
   guarded (world_with config_redis None) ''TaskService_sweep'' ''sweep'' None None None
      failing_method 7 [] =
     (Rejected (Error ''Redis connection failed. The method sweep is not executed.''), [])"
proof -
  have 5: "\<not> isEmpty (resolve_options (world_with config_redis None) 7)"
    by (simp add: resolve_config_redis redis_options_not_empty)
  have 6: "Locker_getInstance (world_with config_redis None)
             (resolve_options (world_with config_redis None) 7) = None"
    by (simp add: client_of_world_with)
  have 7: "guarded (world_with config_redis None) ''TaskService_sweep'' ''sweep'' None None None
      failing_method 7 [] =
     (Rejected (Error ''Redis connection failed. The method sweep is not executed.''), [])"
    using guarded_acquisition_failure [OF 5, where methodName = "''sweep''"] 6 by simp
  have 1: "\<not> isEmpty (resolve_options (world_with config_redis (Some busy_locker)) 7)"
    by (simp add: resolve_config_redis redis_options_not_empty)
  have 2: "Locker_getInstance (world_with config_redis (Some busy_locker))
             (resolve_options (world_with config_redis (Some busy_locker)) 7) = Some busy_locker"
    by (simp add: client_of_world_with)
  have 3: "attempt busy_locker ''TaskService_run'' (Some 1000) (Some 100) (Some 500) =
             Rejected (Error ''gave up waiting'')"
    by (simp add: attempt_def busy_locker_def of_opt_number_def)
  have 4: "snd (acquire busy_locker ''TaskService_run'' (Some 1000) (Some 100) (Some 500)
                :: bool \<times> nat event list) =
             [CallWaitLock ''TaskService_run'' (Some 1000) (Some 100) (Some 500),
              LogError (Error ''gave up waiting'')]"
    by (simp add: acquire_attempt 3 of_opt_number_def)
  show ?thesis
    using guarded_acquisition_failure [OF 1, of busy_locker "''TaskService_run''" "Some 1000"
        "Some 100" "Some 500" "''run''" echo_method "[JNum 1]"] 2 3 4 7
    by simp
qed

text \<open>
  C1 as stated fails where the backend connection fails before any acquisition: with a
  configuration present and no lock client, the caller gets an error and no warning is logged.
\<close>

theorem guarded_no_client_counterexample:
  "guarded (world_with config_redis None) ''TaskService_run'' ''run'' (Some 1000) None None
     echo_method 7 [] =
     (Rejected (Error ''Redis connection failed. The method run is not executed.''), [])"
  using guarded_without_client [where w = "world_with config_redis None" and this = 7
      and methodName = "''run''"]
  by (simp add: resolve_config_redis redis_options_not_empty client_of_world_with)

text \<open>
  C2. When the lock is acquired, the original method is called once, with the receiver and
  the arguments of the call, and the caller gets exactly its promise: its value, or the
  error it raised. In both outcomes the effects end with the release: nothing when the
  client has no \<open>unLock\<close>, otherwise the call of \<open>unLock\<close> with the lock name, followed by
  a log line when the release fails; a failed release changes nothing of what the caller gets.
\<close>

theorem guarded_runs_and_releases:
  assumes "\<not> isEmpty (resolve_options w this)"
    and "Locker_getInstance w (resolve_options w this) = Some lockerCls"
    and "attempt lockerCls name lt wi wt = Resolved True"
  shows "fst (guarded w name methodName lt wi wt v this props) = v this props \<and>
         snd (guarded w name methodName lt wi wt v this props) =
           [if truthy (of_opt_number wi) \<or> truthy (of_opt_number wt)
            then CallWaitLock name lt wi wt else CallLock name lt,
            LogInfo (''The locker '' @ name @ '' executed.''),
            Apply this props] @
           (case unLock lockerCls of
              None \<Rightarrow> []
            | Some u \<Rightarrow>
                CallUnLock name #
                (case u name of Resolved done \<Rightarrow> [] | Rejected er \<Rightarrow> [LogError er]))"
  using assms
  by (simp add: guarded_with_client [OF assms(1,2)] acquire_attempt release_def)

text \<open>The guarded method fails and the release fails: the caller sees the method's error.\<close>

theorem guarded_runs_and_releases_witness:
  "guarded (world_with config_redis (Some leaky_locker)) ''TaskService_run'' ''run''
      (Some 1000) None None failing_method 7 [JStr ''a''] =
     (Rejected (Error ''business failure''),
      [CallLock ''TaskService_run'' (Some 1000),
       LogInfo ''The locker TaskService_run executed.'',
       Apply 7 [JStr ''a''],
       CallUnLock ''TaskService_run'',
       LogError (Error ''release failed'')])"
proof -
  have 1: "\<not> isEmpty (resolve_options (world_with config_redis (Some leaky_locker)) 7)"
    by (simp add: resolve_config_redis redis_options_not_empty)
  have 2: "Locker_getInstance (world_with config_redis (Some leaky_locker))
             (resolve_options (world_with config_redis (Some leaky_locker)) 7) = Some leaky_locker"
    by (simp add: client_of_world_with)
  have 3: "attempt leaky_locker ''TaskService_run'' (Some 1000) None None = Resolved True"
    by (simp add: attempt_def leaky_locker_def of_opt_number_def)
  have 4: "unLock leaky_locker = Some (\<lambda>name. Rejected (Error ''release failed''))"
    by (simp add: leaky_locker_def)
  show ?thesis
    using guarded_runs_and_releases [OF 1 2 3, of "''run''" failing_method "[JStr ''a'']"]
    by (simp add: prod_eq_iff 4 of_opt_number_def failing_method_def)
qed

text \<open>
  C3, as the code has it. The configuration is
  \<^verbatim>\<open>config("SchedulerLock", "db") || config("redis", "db")\<close>: the value under
  \<^verbatim>\<open>SchedulerLock\<close> when it is truthy, the value under \<^verbatim>\<open>redis\<close> otherwise. So a non-empty
  truthy value under the first key wins, and without a truthy value under the first key a
  non-empty one under the second does. When the chosen value is empty the call is rejected
  at once with the configuration error, with no effect at all, so the original method is
  never called; that is the case whenever neither key has a non-empty value.
\<close>

theorem guarded_configuration:
  "resolve_options w this =
     (if truthy (app_config w this ''SchedulerLock'' ''db'')
      then app_config w this ''SchedulerLock'' ''db'' else app_config w this ''redis'' ''db'') \<and>
   (isEmpty (resolve_options w this) \<longrightarrow>
      guarded w name methodName lt wi wt v this props = (Rejected (Error missing_config_msg), [])) \<and>
   (isEmpty (app_config w this ''SchedulerLock'' ''db'') \<and> isEmpty (app_config w this ''redis'' ''db'') \<longrightarrow>
      isEmpty (resolve_options w this))"
proof (intro conjI impI)
  show "resolve_options w this =
     (if truthy (app_config w this ''SchedulerLock'' ''db'')
      then app_config w this ''SchedulerLock'' ''db'' else app_config w this ''redis'' ''db'')"
    by (simp add: resolve_options_def js_or_def)
  show "guarded w name methodName lt wi wt v this props = (Rejected (Error missing_config_msg), [])"
    if "isEmpty (resolve_options w this)"
    using that by (rule guarded_without_config)
  show "isEmpty (resolve_options w this)"
    if "isEmpty (app_config w this ''SchedulerLock'' ''db'') \<and> isEmpty (app_config w this ''redis'' ''db'')"
    using that by (simp add: resolve_options_def js_or_def)
qed

text \<open>Without any configuration the call fails before the lock client is even asked for.\<close>

theorem guarded_configuration_witness:
  "guarded (world_with config_none (Some free_locker)) ''TaskService_run'' ''run''
      (Some 1000) None None echo_method 7 [] = (Rejected (Error missing_config_msg), [])"
proof -
  have "isEmpty (resolve_options (world_with config_none (Some free_locker)) 7)"
    by (simp add: resolve_options_def js_or_def world_with_def config_none_def)
  then show ?thesis
    using guarded_configuration [where w = "world_with config_none (Some free_locker)" and this = 7]
    by simp
qed

text \<open>
  C3 as stated fails when the first key resolves to an empty object: the second key holds a
  non-empty configuration and a lock could be had, yet the call fails with the
  configuration error.
\<close>

theorem guarded_blank_first_counterexample:
  "\<not> isEmpty (app_config (world_with config_blank_first (Some free_locker)) 7 ''redis'' ''db'') \<and>
   guarded (world_with config_blank_first (Some free_locker)) ''TaskService_run'' ''run''
      (Some 1000) None None echo_method 7 [] = (Rejected (Error missing_config_msg), [])"
proof -
  have "isEmpty (resolve_options (world_with config_blank_first (Some free_locker)) 7)"
    by (simp add: resolve_options_def js_or_def world_with_def config_blank_first_def)
  then show ?thesis
    by (simp add: guarded_without_config world_with_def config_blank_first_def redis_options_def)
qed

text \<open>
  C6, as the code has it. The wrapper calls one acquisition primitive, once: \<open>waitLock\<close>
  when the polling interval or the give-up timeout given at decoration time is truthy, that
  is given and not zero; \<open>lock\<close> otherwise, also when the two were given as zero.
\<close>

theorem guarded_acquisition_primitive:
  assumes "\<not> isEmpty (resolve_options w this)"
    and "Locker_getInstance w (resolve_options w this) = Some lockerCls"
  shows "filter is_acquisition (snd (guarded w name methodName lt wi wt v this props)) =
           [if (wi \<noteq> None \<and> wi \<noteq> Some 0) \<or> (wt \<noteq> None \<and> wt \<noteq> Some 0)
            then CallWaitLock name lt wi wt else CallLock name lt]"
  by (auto simp: guarded_with_client [OF assms] acquire_attempt release_def truthy_of_opt_number
           split: promise.splits option.splits)

theorem guarded_acquisition_primitive_witness:
  "filter is_acquisition
     (snd (guarded (world_with config_redis (Some free_locker)) ''TaskService_run'' ''run''
             (Some 1000) None (Some 500) echo_method 7 [])) =
     [CallWaitLock ''TaskService_run'' (Some 1000) None (Some 500)]"
proof -
  have 1: "\<not> isEmpty (resolve_options (world_with config_redis (Some free_locker)) 7)"
    by (simp add: resolve_config_redis redis_options_not_empty)
  have 2: "Locker_getInstance (world_with config_redis (Some free_locker))
             (resolve_options (world_with config_redis (Some free_locker)) 7) = Some free_locker"
    by (simp add: client_of_world_with)
  show ?thesis
    using guarded_acquisition_primitive [OF 1 2, of "''TaskService_run''" "''run''" "Some 1000"
        None "Some 500" echo_method "[]"]
    by simp
qed

text \<open>
  C6 as stated fails for a polling interval and a give-up timeout given as zero: both were
  specified, and the single-attempt primitive is the one called.
\<close>

theorem guarded_zero_wait_counterexample:
  "guarded (world_with config_redis (Some free_locker)) ''TaskService_run'' ''run''
      (Some 1000) (Some 0) (Some 0) echo_method 7 [] =
     (Resolved (JArr []),
      [CallLock ''TaskService_run'' (Some 1000),
       LogInfo ''The locker TaskService_run executed.'',
       Apply 7 [],
       CallUnLock ''TaskService_run''])"
proof -
  have 1: "\<not> isEmpty (resolve_options (world_with config_redis (Some free_locker)) 7)"
    by (simp add: resolve_config_redis redis_options_not_empty)
  have 2: "Locker_getInstance (world_with config_redis (Some free_locker))
             (resolve_options (world_with config_redis (Some free_locker)) 7) = Some free_locker"
    by (simp add: client_of_world_with)
  have 3: "attempt free_locker ''TaskService_run'' (Some 1000) (Some 0) (Some 0) = Resolved True"
    by (simp add: attempt_def free_locker_def of_opt_number_def)
  have 4: "unLock free_locker = Some (\<lambda>name. Resolved ())"
    by (simp add: free_locker_def)
  show ?thesis
    unfolding guarded_with_client [OF 1 2]
    by (simp add: 3 4 acquire_attempt release_def of_opt_number_def echo_method_def)
qed

text \<open>
  C10. When the acquisition primitive does not resolve to true, the promise of the wrapper
  resolves to \<^verbatim>\<open>undefined\<close>, whatever the original method would have returned; and a call
  that acquires the lock and whose original method returns \<^verbatim>\<open>undefined\<close> gives the caller
  the same promise.
\<close>

theorem guarded_skip_resolves_undefined:
  assumes "\<not> isEmpty (resolve_options w this)"
    and "Locker_getInstance w (resolve_options w this) = Some lockerCls"
  shows "(attempt lockerCls name lt wi wt \<noteq> Resolved True \<longrightarrow>
            fst (guarded w name methodName lt wi wt v this props) = Resolved JUndefined) \<and>
         (attempt lockerCls name lt wi wt = Resolved True \<and> v this props = Resolved JUndefined \<longrightarrow>
            fst (guarded w name methodName lt wi wt v this props) = Resolved JUndefined)"
  by (simp add: guarded_with_client [OF assms])

theorem guarded_skip_resolves_undefined_witness:
  "fst (guarded (world_with config_redis (Some busy_locker)) ''TaskService_run'' ''run''
          (Some 1000) None None echo_method 7 [JNum 1]) = Resolved JUndefined \<and>
   echo_method 7 [JNum 1] = Resolved (JArr [JNum 1]) \<and>
   fst (guarded (world_with config_redis (Some free_locker)) ''TaskService_run'' ''run''
          (Some 1000) None None silent_method 7 [JNum 1]) = Resolved JUndefined"
proof -
  have 4: "\<not> isEmpty (resolve_options (world_with config_redis (Some free_locker)) 7)"
    by (simp add: resolve_config_redis redis_options_not_empty)
  have 5: "Locker_getInstance (world_with config_redis (Some free_locker))
             (resolve_options (world_with config_redis (Some free_locker)) 7) = Some free_locker"
    by (simp add: client_of_world_with)
  have 6: "attempt free_locker ''TaskService_run'' (Some 1000) None None = Resolved True"
    by (simp add: attempt_def free_locker_def of_opt_number_def)
  have 7: "fst (guarded (world_with config_redis (Some free_locker)) ''TaskService_run'' ''run''
          (Some 1000) None None silent_method 7 [JNum 1]) = Resolved JUndefined"
    using guarded_skip_resolves_undefined [OF 4 5, of "''TaskService_run''" "Some 1000" None None
        "''run''" silent_method "[JNum 1]"] 6
    by (simp add: silent_method_def)
  have 1: "\<not> isEmpty (resolve_options (world_with config_redis (Some busy_locker)) 7)"
    by (simp add: resolve_config_redis redis_options_not_empty)
  have 2: "Locker_getInstance (world_with config_redis (Some busy_locker))
             (resolve_options (world_with config_redis (Some busy_locker)) 7) = Some busy_locker"
    by (simp add: client_of_world_with)
  have 3: "attempt busy_locker ''TaskService_run'' (Some 1000) None None \<noteq> Resolved True"
    by (simp add: attempt_def busy_locker_def of_opt_number_def)
  show ?thesis
    using guarded_skip_resolves_undefined [OF 1 2, of "''TaskService_run''" "Some 1000" None None
        "''run''" echo_method "[JNum 1]"] 3 7
    by (simp add: echo_method_def)
qed

section \<open>Properties of the decorators\<close>

text \<open>
  C4, as the code has it. \<open>Scheduled\<close> tests its argument with \<^verbatim>\<open>helper.isEmpty\<close>, for
  which a string is empty when all its characters are white space, the string without
  characters included. With such a cron expression the factory raises its error when it is
  called: no decorator comes back, so nothing can be recorded and no timer can arise from
  it. With any other cron expression it raises nothing and returns the decorator, which
  appends the pair of the cron expression and the method name to the records of that method
  of that target under the schedule key, and touches no other entry of the registry.
\<close>

theorem Scheduled_registration:
  "isEmpty (JStr cron) = (\<forall>ch \<in> set cron. is_space ch) \<and>
   (isEmpty (JStr cron) \<longrightarrow> Scheduled cron = Inl (Error ''ScheduleJob rule is not defined'')) \<and>
   (\<not> isEmpty (JStr cron) \<longrightarrow>
      (\<exists>decorator. Scheduled cron = Inr decorator \<and>
         (\<forall>target propertyKey reg.
            decorator target propertyKey reg (SCHEDULE_KEY, target, propertyKey) =
              reg (SCHEDULE_KEY, target, propertyKey) @ [\<lparr>m_cron = cron, m_method = propertyKey\<rparr>] \<and>
            (\<forall>entry. entry \<noteq> (SCHEDULE_KEY, target, propertyKey) \<longrightarrow>
               decorator target propertyKey reg entry = reg entry))))"
proof (intro conjI)
  show "isEmpty (JStr cron) = (\<forall>ch \<in> set cron. is_space ch)"
    by (simp add: dropWhile_eq_Nil_conv)
  show "isEmpty (JStr cron) \<longrightarrow> Scheduled cron = Inl (Error ''ScheduleJob rule is not defined'')"
    by (simp add: Scheduled_def)
  show "\<not> isEmpty (JStr cron) \<longrightarrow>
      (\<exists>decorator. Scheduled cron = Inr decorator \<and>
         (\<forall>target propertyKey reg.
            decorator target propertyKey reg (SCHEDULE_KEY, target, propertyKey) =
              reg (SCHEDULE_KEY, target, propertyKey) @ [\<lparr>m_cron = cron, m_method = propertyKey\<rparr>] \<and>
            (\<forall>entry. entry \<noteq> (SCHEDULE_KEY, target, propertyKey) \<longrightarrow>
               decorator target propertyKey reg entry = reg entry)))"
    by (simp add: Scheduled_def attachPropertyData_def)
qed

theorem Scheduled_registration_witness:
  "Scheduled [] = Inl (Error ''ScheduleJob rule is not defined'') \<and>
   (\<exists>decorator. Scheduled ''*/5 * * * * *'' = Inr decorator \<and>
      decorator service_proto ''tick'' registry0 (SCHEDULE_KEY, service_proto, ''tick'') =
        [\<lparr>m_cron = ''*/5 * * * * *'', m_method = ''tick''\<rparr>])"
proof -
  have 1: "isEmpty (JStr [])" by simp
  have 2: "\<not> isEmpty (JStr ''*/5 * * * * *'')" by (simp add: is_space_def)
  from Scheduled_registration [of "[]"] 1
  have a: "Scheduled [] = Inl (Error ''ScheduleJob rule is not defined'')" by blast
  from Scheduled_registration [of "''*/5 * * * * *''"] 2
  obtain decorator where d: "Scheduled ''*/5 * * * * *'' = Inr decorator"
    and r: "\<And>target propertyKey reg.
            decorator target propertyKey reg (SCHEDULE_KEY, target, propertyKey) =
              reg (SCHEDULE_KEY, target, propertyKey) @
              [\<lparr>m_cron = ''*/5 * * * * *'', m_method = propertyKey\<rparr>]"
    by blast
  have "decorator service_proto ''tick'' registry0 (SCHEDULE_KEY, service_proto, ''tick'') =
        [\<lparr>m_cron = ''*/5 * * * * *'', m_method = ''tick''\<rparr>]"
    by (simp add: r registry0_def)
  with a d show ?thesis by blast
qed

text \<open>
  C4 as stated fails for a cron expression that is not empty and holds white space only:
  a single blank is a string of length one, and the factory raises its error for it.
\<close>

theorem Scheduled_blank_counterexample:
  "'' '' \<noteq> [] \<and> length '' '' = 1 \<and>
   Scheduled '' '' = Inl (Error ''ScheduleJob rule is not defined'')"
  by (simp add: Scheduled_def is_space_def)

text \<open>
  C5. \<open>SchedulerLock\<close> applied to a method of a target whose component type is
  \<^verbatim>\<open>CONTROLLER\<close> raises its error and yields no descriptor; for every other component type it
  raises nothing and yields the new descriptor, writable, with the flags of the old one and
  the lock-guard wrapper of the old method as its value.
\<close>

theorem SchedulerLock_component_type:
  "(getType c target = ''CONTROLLER'' \<longrightarrow>
      SchedulerLock w c name lt wi wt target methodName descriptor =
        Inl (Error ''SchedulerLock decorator cannot be used in the controller class.'')) \<and>
   (getType c target \<noteq> ''CONTROLLER'' \<longrightarrow>
      (\<exists>d. SchedulerLock w c name lt wi wt target methodName descriptor =
             Inr (lock_name c name target methodName, d) \<and>
           writable d \<and> configurable d = configurable descriptor \<and>
           enumerable d = enumerable descriptor \<and>
           desc_value d =
             guarded w (lock_name c name target methodName) methodName lt wi wt
               (desc_value descriptor)))"
  by (simp add: SchedulerLock_def Let_def)

theorem SchedulerLock_component_type_witness:
  "SchedulerLock (world_with config_redis (Some free_locker)) the_ioc None (Some 1000) None None
      controller_proto ''index'' the_descriptor =
     Inl (Error ''SchedulerLock decorator cannot be used in the controller class.'') \<and>
   (\<exists>d. SchedulerLock (world_with config_redis (Some free_locker)) the_ioc None (Some 1000) None
           None service_proto ''run'' the_descriptor =
          Inr (lock_name the_ioc None service_proto ''run'', d) \<and> writable d)"
proof -
  have 1: "getType the_ioc controller_proto = ''CONTROLLER''"
    by (simp add: the_ioc_def controller_proto_def)
  have 2: "getType the_ioc service_proto \<noteq> ''CONTROLLER''"
    by (simp add: the_ioc_def service_proto_def)
  from SchedulerLock_component_type [of the_ioc controller_proto] 1
  have a: "SchedulerLock (world_with config_redis (Some free_locker)) the_ioc None (Some 1000)
             None None controller_proto ''index'' the_descriptor =
           Inl (Error ''SchedulerLock decorator cannot be used in the controller class.'')"
    by blast
  from SchedulerLock_component_type [of the_ioc service_proto
      "world_with config_redis (Some free_locker)" None "Some 1000" None None "''run''"
      the_descriptor] 2
  have "\<exists>d. SchedulerLock (world_with config_redis (Some free_locker)) the_ioc None (Some 1000) None
           None service_proto ''run'' the_descriptor =
          Inr (lock_name the_ioc None service_proto ''run'', d) \<and> writable d"
    by blast
  with a show ?thesis by blast
qed

text \<open>
  The name an application leaves in the shared variable is not empty, and an application
  that finds such a name keeps it: a decorator function applied to a second method gives
  that method's wrapper the lock name of the first.
\<close>

lemma lock_name_not_empty: "\<not> isEmpty (JStr (lock_name c name target methodName))"
proof (cases "isEmpty (of_opt_string name)")
  case True
  have "\<not> is_space (CHR ''_'')"
    by (simp add: is_space_def)
  then have "\<not> (\<forall>ch \<in> set (prefix @ ''_'' @ methodName). is_space ch)" for prefix
    by auto
  then have "dropWhile is_space (prefix @ ''_'' @ methodName) \<noteq> []" for prefix
    by (simp only: dropWhile_eq_Nil_conv) simp
  with True show ?thesis
    by (simp add: lock_name_def Let_def)
next
  case False
  then show ?thesis
    by (cases name) (auto simp: lock_name_def of_opt_string_def)
qed

lemma lock_name_settled:
  "lock_name c (Some (lock_name c name target methodName)) target' methodName' =
     lock_name c name target methodName"
  using lock_name_not_empty [of c name target methodName]
  by (auto simp: lock_name_def [of c "Some (lock_name c name target methodName)"]
        of_opt_string_def)

lemma SchedulerLock_shared_name:
  assumes "SchedulerLock w c name lt wi wt target methodName descriptor = Inr (name1, d1)"
    and "getType c target' \<noteq> ''CONTROLLER''"
  shows "\<exists>d2. SchedulerLock w c (Some name1) lt wi wt target' methodName' descriptor' =
                Inr (name1, d2) \<and>
              desc_value d2 = guarded w name1 methodName' lt wi wt (desc_value descriptor')"
proof -
  from assms(1) have "name1 = lock_name c name target methodName"
    by (simp add: SchedulerLock_def Let_def split: if_splits)
  then have "lock_name c (Some name1) target' methodName' = name1"
    by (simp add: lock_name_settled)
  with assms(2) show ?thesis
    by (simp add: SchedulerLock_def Let_def)
qed

text \<open>
  Where the target has a registered identifier that is not the empty string, the default
  lock name and the name of the job are the same: the identifier, an underscore and the
  method name.
\<close>

lemma default_names_agree:
  assumes "isEmpty (of_opt_string name)"
    and "getIdentifier c target = Some ident"
    and "ident \<noteq> []"
  shows "lock_name c name target methodName = ident @ ''_'' @ methodName"
    and "job_name c target methodName = lock_name c name target methodName"
  using assms
  by (simp_all add: lock_name_def job_name_def template_def of_opt_string_def Let_def)


section \<open>Properties of the scheduler registrar\<close>

lemma job_callback_resolves: "\<exists>res. fst (job_callback rt name instance method) = Resolved res"
  by (simp add: job_callback_def Let_def split: member.splits promise.splits)

lemma fire_all_complete:
  "fire_all firings =
     Some (concat (map (\<lambda>(rt, name, instance, method).
                          snd (job_callback rt name instance method)) firings))"
proof (induction firings)
  case Nil
  show ?case by simp
next
  case (Cons firing rest)
  obtain rt name inst m where f: "firing = (rt, name, inst, m)"
    by (cases firing) auto
  obtain res where r: "fst (job_callback rt name inst m) = Resolved res"
    using job_callback_resolves [of rt name inst m] by auto
  then have "job_callback rt name inst m = (Resolved res, snd (job_callback rt name inst m))"
    by (simp add: prod_eq_iff)
  then have "fire_all ((rt, name, inst, m) # rest) =
               map_option ((@) (snd (job_callback rt name inst m))) (fire_all rest)"
    by (metis (no_types, lifting) fire_all.simps(2) old.prod.case promise.simps(5))
  then show ?case
    by (simp add: f Cons.IH)
qed

text \<open>
  C7. At every firing the callback first logs that the job started; when the bound member
  is a function it is then called on the instance with no arguments, and an error it raises
  is logged. Whatever the method does, the promise the timer driver gets is resolved, never
  rejected. Hence even the strictest driver, which would give up at the first error handed
  to it, runs every firing of any sequence of firings of any timers: a failed firing stops
  nothing.
\<close>

theorem job_callback_isolates_errors:
  "(\<exists>res. fst (job_callback rt name instance method) = Resolved res) \<and>
   hd (snd (job_callback rt name instance method)) =
     LogInfo (''The schedule job '' @ name @ '' started.'') \<and>
   (\<forall>f. get_member rt instance method = FunctionMember f \<longrightarrow>
      snd (job_callback rt name instance method) =
        [LogInfo (''The schedule job '' @ name @ '' started.''), CallMethod instance method []] @
        (case f instance [] of Resolved res \<Rightarrow> [] | Rejected e \<Rightarrow> [LogError e]) \<and>
      fst (job_callback rt name instance method) =
        (case f instance [] of Resolved res \<Rightarrow> Resolved res | Rejected e \<Rightarrow> Resolved JUndefined)) \<and>
   fire_all firings =
     Some (concat (map (\<lambda>(rt, name, instance, method).
                          snd (job_callback rt name instance method)) firings))"
proof (intro conjI allI impI)
  show "\<exists>res. fst (job_callback rt name instance method) = Resolved res"
    by (rule job_callback_resolves)
  show "hd (snd (job_callback rt name instance method)) =
          LogInfo (''The schedule job '' @ name @ '' started.'')"
    by (simp add: job_callback_def Let_def split: member.splits promise.splits)
  show "fire_all firings =
     Some (concat (map (\<lambda>(rt, name, instance, method).
                          snd (job_callback rt name instance method)) firings))"
    by (rule fire_all_complete)
next
  fix f
  assume m: "get_member rt instance method = FunctionMember f"
  show "snd (job_callback rt name instance method) =
        [LogInfo (''The schedule job '' @ name @ '' started.''), CallMethod instance method []] @
        (case f instance [] of Resolved res \<Rightarrow> [] | Rejected e \<Rightarrow> [LogError e])"
    by (simp add: job_callback_def Let_def m split: promise.splits)
  show "fst (job_callback rt name instance method) =
        (case f instance [] of Resolved res \<Rightarrow> Resolved res | Rejected e \<Rightarrow> Resolved JUndefined)"
    by (simp add: job_callback_def Let_def m split: promise.splits)
qed

text \<open>A job that fails, between two firings of a job that works: all three run.\<close>

theorem job_callback_isolates_errors_witness:
  "job_callback the_runtime ''TaskService_crash'' 7 ''crash'' =
     (Resolved JUndefined,
      [LogInfo ''The schedule job TaskService_crash started.'',
       CallMethod 7 ''crash'' [],
       LogError (Error ''business failure'')]) \<and>
   fire_all [(the_runtime, ''TaskService_tick'', 7, ''tick''),
             (the_runtime, ''TaskService_crash'', 7, ''crash''),
             (the_runtime, ''TaskService_tick'', 7, ''tick'')] =
     Some [LogInfo ''The schedule job TaskService_tick started.'',
           CallMethod 7 ''tick'' [],
           LogInfo ''The schedule job TaskService_crash started.'',
           CallMethod 7 ''crash'' [],
           LogError (Error ''business failure''),
           LogInfo ''The schedule job TaskService_tick started.'',
           CallMethod 7 ''tick'' []]"
proof -
  have 1: "get_member the_runtime 7 ''crash'' = FunctionMember failing_method"
    by (simp add: the_runtime_def the_members_def)
  have 2: "get_member the_runtime 7 ''tick'' = FunctionMember echo_method"
    by (simp add: the_runtime_def the_members_def)
  have 3: "failing_method 7 [] = Rejected (Error ''business failure'')"
    by (simp add: failing_method_def)
  have 4: "echo_method 7 [] = Resolved (JArr [])"
    by (simp add: echo_method_def)
  note c = job_callback_isolates_errors [of the_runtime "''TaskService_crash''" 7 "''crash''"
      "[(the_runtime, ''TaskService_tick'', 7, ''tick''),
        (the_runtime, ''TaskService_crash'', 7, ''crash''),
        (the_runtime, ''TaskService_tick'', 7, ''tick'')]"]
  note t = job_callback_isolates_errors [of the_runtime "''TaskService_tick''" 7 "''tick''" "[]"]
  have a: "snd (job_callback the_runtime ''TaskService_crash'' 7 ''crash'') =
      [LogInfo ''The schedule job TaskService_crash started.'',
       CallMethod 7 ''crash'' [],
       LogError (Error ''business failure'')]"
    and b: "fst (job_callback the_runtime ''TaskService_crash'' 7 ''crash'') = Resolved JUndefined"
    using c 1 3 by simp_all
  have d: "snd (job_callback the_runtime ''TaskService_tick'' 7 ''tick'') =
      [LogInfo ''The schedule job TaskService_tick started.'', CallMethod 7 ''tick'' []]"
    using t 2 4 by simp
  have e: "fire_all [(the_runtime, ''TaskService_tick'', 7, ''tick''),
             (the_runtime, ''TaskService_crash'', 7, ''crash''),
             (the_runtime, ''TaskService_tick'', 7, ''tick'')] =
     Some (concat (map (\<lambda>(rt, name, instance, method).
                          snd (job_callback rt name instance method))
             [(the_runtime, ''TaskService_tick'', 7, ''tick''),
              (the_runtime, ''TaskService_crash'', 7, ''crash''),
              (the_runtime, ''TaskService_tick'', 7, ''tick'')]))"
    using c by blast
  show ?thesis
    unfolding e by (simp add: a b d prod_eq_iff)
qed

lemma emit_once:
  "snd (emit ev rt (once ev listener a)) = snd (emit ev rt a) @ listener rt"
  by (simp add: emit_def once_def)

lemma timers_on_appStart:
  "filter is_timer (on_appStart target method cron rt) =
     (case getInsByClass rt target of
        None \<Rightarrow> []
      | Some inst \<Rightarrow>
          if cron \<noteq> [] \<and> isFunction (get_member rt inst method)
          then [StartCronJob cron (job_name (IOCContainer rt) target method) inst method]
          else [])"
  by (simp add: on_appStart_def Let_def split: option.splits)

lemma started_after_exec:
  "started_timers rt (execInjectSchedule target (Some a) method cron) =
     started_timers rt (Some a) @ filter is_timer (on_appStart target method cron rt)"
  by (simp add: started_timers_def execInjectSchedule_def emit_once)

lemma inject_vals_app:
  "\<exists>a'. inject_vals target meta vals (Some a) = Some a' \<and>
        started_timers rt (Some a') =
          started_timers rt (Some a) @ concat (map (due_timer rt target meta) vals)"
proof (induction vals arbitrary: a)
  case Nil
  show ?case by simp
next
  case (Cons val vals)
  show ?case
  proof (cases "truthy (JStr (m_cron val)) \<and> truthy (JStr meta)")
    case True
    obtain b where b: "execInjectSchedule target (Some a) meta (m_cron val) = Some b"
      by (simp add: execInjectSchedule_def)
    have sb: "started_timers rt (Some b) = started_timers rt (Some a) @ due_timer rt target meta val"
      using started_after_exec [of rt target a meta "m_cron val"] True
      by (simp add: b timers_on_appStart due_timer_def split: option.splits)
    from Cons.IH [of b] obtain a' where
      "inject_vals target meta vals (Some b) = Some a'"
      "started_timers rt (Some a') =
         started_timers rt (Some b) @ concat (map (due_timer rt target meta) vals)"
      by blast
    then show ?thesis
      using True by (simp add: b sb)
  next
    case False
    then have "due_timer rt target meta val = []"
      by (auto simp: due_timer_def split: option.splits)
    with Cons.IH [of a] False show ?thesis
      by auto
  qed
qed

lemma inject_metas_app:
  "\<exists>a'. inject_metas target metaDatas (Some a) = Some a' \<and>
        started_timers rt (Some a') = started_timers rt (Some a) @ due_timers rt target metaDatas"
proof (induction metaDatas arbitrary: a)
  case Nil
  show ?case by (simp add: due_timers_def)
next
  case (Cons entry rest)
  obtain meta vals where e: "entry = (meta, vals)"
    by (cases entry) auto
  from inject_vals_app [of target meta vals a rt] obtain b where
    b: "inject_vals target meta vals (Some a) = Some b"
    and sb: "started_timers rt (Some b) =
               started_timers rt (Some a) @ concat (map (due_timer rt target meta) vals)"
    by blast
  from Cons.IH [of b] obtain a' where
    "inject_metas target rest (Some b) = Some a'"
    "started_timers rt (Some a') = started_timers rt (Some b) @ due_timers rt target rest"
    by blast
  then show ?case
    by (simp add: e b sb due_timers_def)
qed

lemma inject_vals_no_app: "inject_vals target meta vals None = None"
  by (induction vals) (simp_all add: execInjectSchedule_def)

lemma inject_metas_no_app: "inject_metas target metaDatas None = None"
  by (induction metaDatas) (auto simp: inject_vals_no_app)

text \<open>
  C9, as the code has it. The listener of an entry whose type has no live instance, or
  whose method on the instance is not a function, does nothing at all: no log line, no
  timer, no error. When the container has an application object, the timers started at
  \<^verbatim>\<open>appStart\<close> after the registrar has run are those started by the listeners that were
  there before, followed by one timer, in the order of the registry, for every entry that is
  due one: a record with a non-empty cron expression under a non-empty method name, of a type
  with an instance that has the method as a function. Without an application object the
  registrar registers nothing.
\<close>

theorem injectSchedule_timers:
  "(getInsByClass rt target = None \<or>
    (\<exists>inst. getInsByClass rt target = Some inst \<and> \<not> isFunction (get_member rt inst method))
      \<longrightarrow> on_appStart target method cron rt = []) \<and>
   started_timers rt (injectSchedule recursiveGetMetadata target (Some a)) =
     started_timers rt (Some a) @ due_timers rt target (recursiveGetMetadata SCHEDULE_KEY target) \<and>
   injectSchedule recursiveGetMetadata target (None :: 'i app option) = None"
proof (intro conjI impI)
  assume "getInsByClass rt target = None \<or>
    (\<exists>inst. getInsByClass rt target = Some inst \<and> \<not> isFunction (get_member rt inst method))"
  then show "on_appStart target method cron rt = []"
    by (auto simp: on_appStart_def Let_def)
next
  show "started_timers rt (injectSchedule recursiveGetMetadata target (Some a)) =
     started_timers rt (Some a) @ due_timers rt target (recursiveGetMetadata SCHEDULE_KEY target)"
    using inject_metas_app [of target "recursiveGetMetadata SCHEDULE_KEY target" a rt]
    by (auto simp: injectSchedule_def Let_def)
next
  show "injectSchedule recursiveGetMetadata target (None :: 'i app option) = None"
    by (simp add: injectSchedule_def Let_def inject_metas_no_app)
qed

text \<open>
  Three entries of a service with an instance: \<open>label\<close> is not a function, \<open>gone\<close> does
  not exist, \<open>tick\<close> is a method. Only \<open>tick\<close> gets a timer.
\<close>

theorem injectSchedule_timers_witness:
  "on_appStart service_proto ''label'' ''0 * * * * *'' the_runtime = [] \<and>
   on_appStart plain_proto ''export'' ''0 * * * * *'' the_runtime = [] \<and>
   started_timers the_runtime (injectSchedule the_metadata service_proto (Some empty_app)) =
     [StartCronJob ''*/5 * * * * *'' ''TaskService_tick'' 7 ''tick'']"
proof -
  have 1: "getInsByClass the_runtime service_proto = Some 7"
    by (simp add: the_runtime_def service_proto_def)
  have 2: "\<not> isFunction (get_member the_runtime 7 ''label'')"
    by (simp add: the_runtime_def the_members_def)
  have 3: "getInsByClass the_runtime plain_proto = None"
    by (simp add: the_runtime_def plain_proto_def)
  have 4: "started_timers the_runtime (Some empty_app) = []"
    by (simp add: started_timers_def emit_def empty_app_def)
  have 5: "due_timers the_runtime service_proto (the_metadata SCHEDULE_KEY service_proto) =
             [StartCronJob ''*/5 * * * * *'' ''TaskService_tick'' 7 ''tick'']"
    by (simp add: due_timers_def due_timer_def the_metadata_def 1 job_name_def template_def)
       (simp add: the_runtime_def the_members_def the_ioc_def service_proto_def)
  note label = injectSchedule_timers [of the_runtime service_proto "''label''" "''0 * * * * *''"
      the_metadata empty_app]
  note export = injectSchedule_timers [of the_runtime plain_proto "''export''" "''0 * * * * *''"
      the_metadata empty_app]
  have a: "on_appStart service_proto ''label'' ''0 * * * * *'' the_runtime = []"
    using label [THEN conjunct1] 1 2 by simp
  have b: "on_appStart plain_proto ''export'' ''0 * * * * *'' the_runtime = []"
    using export [THEN conjunct1] 3 by simp
  have c: "started_timers the_runtime (injectSchedule the_metadata service_proto (Some empty_app)) =
     [StartCronJob ''*/5 * * * * *'' ''TaskService_tick'' 7 ''tick'']"
    using label [THEN conjunct2, THEN conjunct1] 4 5 by simp
  from a b c show ?thesis by simp
qed

text \<open>
  C9 as stated fails when the container has no application object: the entry for \<open>tick\<close>
  has a cron expression, a live instance and a callable method, and yet nothing is
  registered for it and no timer is ever started.
\<close>

theorem injectSchedule_no_app_counterexample:
  "the_metadata SCHEDULE_KEY service_proto ! 2 =
     (''tick'', [\<lparr>m_cron = ''*/5 * * * * *'', m_method = ''tick''\<rparr>]) \<and>
   getInsByClass the_runtime service_proto = Some 7 \<and>
   isFunction (get_member the_runtime 7 ''tick'') \<and>
   injectSchedule the_metadata service_proto (None :: nat app option) = None \<and>
   started_timers the_runtime (injectSchedule the_metadata service_proto None) = []"
  by (simp add: injectSchedule_def Let_def inject_metas_no_app started_timers_def
        the_metadata_def the_runtime_def the_members_def service_proto_def)

end
